theory Spec2Isabelle
  imports Main "HOL-Library.AList"
begin

section \<open>JavaScript values\<close>

text \<open>
  The controller's main process (\<^verbatim>\<open>src/main.js\<close>) keeps its connection profile in the
  module variable \<^verbatim>\<open>settings\<close>, a plain JavaScript object; the IPC handlers receive
  and return structured-cloneable values. A value is modelled as a tree. An object is
  the list of its own enumerable properties in the order JavaScript enumerates them:
  the keys that are array indices first, in ascending order, then the other keys in
  the order of their creation. \<open>JNum n\<close> is the number whose value is the integer
  \<open>n\<close> (a port number); fractional numbers, \<^verbatim>\<open>NaN\<close> and the infinities are not
  modelled.
\<close>

datatype jsval =
    JUndefined
  | JNull
  | JBool bool
  | JNum int
  | JStr string
  | JArr "jsval list"
  | JObj "(string \<times> jsval) list"

subsection \<open>Errors\<close>

text \<open>
  A thrown error as the \<^verbatim>\<open>catch\<close> clauses see it: its \<^verbatim>\<open>message\<close>, and for an error of the
  HTTP client the status of the response when the server answered at all
  (\<^verbatim>\<open>error.response\<close> is absent for a network failure).
\<close>

record js_error =
  message :: string
  response :: "nat option"

definition type_error :: "string \<Rightarrow> js_error" where
  "type_error msg = \<lparr>message = msg, response = None\<rparr>"

subsection \<open>Conversion to string\<close>

definition digit_char :: "nat \<Rightarrow> char" where
  "digit_char d = ''0123456789'' ! d"

function show_nat :: "nat \<Rightarrow> string" where
  "show_nat n =
     (if n < 10 then [digit_char n] else show_nat (n div 10) @ [digit_char (n mod 10)])"
  by pat_completeness auto
termination
  by (relation "measure id") auto

declare show_nat.simps [simp del]

text \<open>
  The text of a number: all its digits below \<open>10\<^sup>2\<^sup>1\<close>, and from there on the exponent
  form (\<^verbatim>\<open>1e+21\<close>, \<^verbatim>\<open>1.5e+22\<close>), written with the digits of \<open>n\<close> itself.
\<close>

definition show_exponent :: "nat \<Rightarrow> string" where
  "show_exponent n =
     (let ds = show_nat n;
          sig = rev (dropWhile (\<lambda>c. c = CHR ''0'') (rev ds))
      in hd sig # (if tl sig = [] then [] else CHR ''.'' # tl sig)
         @ ''e+'' @ show_nat (length ds - 1))"

definition show_magnitude :: "nat \<Rightarrow> string" where
  "show_magnitude n = (if n < 1000000000000000000000 then show_nat n else show_exponent n)"

definition show_number :: "int \<Rightarrow> string" where
  "show_number i =
     (if i < 0 then CHR ''-'' # show_magnitude (nat (- i)) else show_magnitude (nat i))"

fun join :: "string \<Rightarrow> string list \<Rightarrow> string" where
  "join sep [] = []"
| "join sep [x] = x"
| "join sep (x # y # ys) = x @ sep @ join sep (y # ys)"

text \<open>
  \<open>to_string\<close> is the conversion a template literal applies to an interpolated value
  (\<^verbatim>\<open>`${v}`\<close>). An array prints its elements separated by commas, with \<^verbatim>\<open>null\<close> and
  \<^verbatim>\<open>undefined\<close> elements empty. A plain object prints as \<^verbatim>\<open>[object Object]\<close> through the
  inherited \<^verbatim>\<open>toString\<close>; an object with an own property \<^verbatim>\<open>toString\<close> (which, in a
  structured-cloneable value, is never a function) cannot be converted, and the
  conversion throws a TypeError.
\<close>

fun to_string :: "jsval \<Rightarrow> js_error + string"
  and to_strings :: "jsval list \<Rightarrow> js_error + string list" where
  "to_string JUndefined = Inr ''undefined''"
| "to_string JNull = Inr ''null''"
| "to_string (JBool b) = Inr (if b then ''true'' else ''false'')"
| "to_string (JNum n) = Inr (show_number n)"
| "to_string (JStr s) = Inr s"
| "to_string (JArr xs) =
     (case to_strings xs of Inl e \<Rightarrow> Inl e | Inr ss \<Rightarrow> Inr (join '','' ss))"
| "to_string (JObj kvs) =
     (if map_of kvs ''toString'' = None then Inr ''[object Object]''
      else Inl (type_error ''Cannot convert object to primitive value''))"
| "to_strings [] = Inr []"
| "to_strings (x # xs) =
     (case (if x = JUndefined \<or> x = JNull then Inr [] else to_string x) of
        Inl e \<Rightarrow> Inl e
      | Inr s \<Rightarrow> (case to_strings xs of Inl e \<Rightarrow> Inl e | Inr ss \<Rightarrow> Inr (s # ss)))"

subsection \<open>Property access and object spread\<close>

text \<open>
  \<open>get_prop v k\<close> is \<^verbatim>\<open>v.k\<close> for a property name \<open>k\<close> that no prototype defines and that
  is neither an index nor \<^verbatim>\<open>length\<close> (the code reads \<^verbatim>\<open>piAddress\<close> and \<^verbatim>\<open>piPort\<close> only):
  reading a property of \<^verbatim>\<open>null\<close> or \<^verbatim>\<open>undefined\<close> throws a TypeError, a missing
  property is \<^verbatim>\<open>undefined\<close>.
\<close>

fun get_prop :: "jsval \<Rightarrow> string \<Rightarrow> js_error + jsval" where
  "get_prop JUndefined k =
     Inl (type_error (''Cannot read properties of undefined (reading '' @ [CHR 0x27] @ k @ [CHR 0x27] @ '')''))"
| "get_prop JNull k =
     Inl (type_error (''Cannot read properties of null (reading '' @ [CHR 0x27] @ k @ [CHR 0x27] @ '')''))"
| "get_prop (JObj kvs) k = Inr (case map_of kvs k of None \<Rightarrow> JUndefined | Some v \<Rightarrow> v)"
| "get_prop v k = Inr JUndefined"

text \<open>
  The own enumerable properties that \<^verbatim>\<open>{...v}\<close> copies: those of an object, the indexed
  elements of an array, the indexed characters of a string, and nothing for any other
  value.
\<close>

fun own_props :: "jsval \<Rightarrow> (string \<times> jsval) list" where
  "own_props (JObj kvs) = kvs"
| "own_props (JArr xs) = zip (map show_nat [0..<length xs]) xs"
| "own_props (JStr s) = zip (map show_nat [0..<length s]) (map (\<lambda>c. JStr [c]) s)"
| "own_props v = []"

text \<open>
  A key is an array index when it is the decimal text, without leading zeros, of a
  number below \<open>2\<^sup>3\<^sup>2 - 1\<close>.
\<close>

definition is_digit :: "char \<Rightarrow> bool" where
  "is_digit c = (c \<in> set ''0123456789'')"

definition read_nat :: "string \<Rightarrow> nat" where
  "read_nat s = foldl (\<lambda>a c. 10 * a + (of_char c - 48)) 0 s"

definition is_index :: "string \<Rightarrow> bool" where
  "is_index k =
     (if k \<noteq> [] \<and> list_all is_digit k
      then show_nat (read_nat k) = k \<and> read_nat k < 4294967295
      else False)"

text \<open>
  Defining the property \<open>k\<close> with value \<open>v\<close> on an object: the value of a key already
  present is replaced where it stands; a new array index takes its place among the
  array indices; any other new key is appended.
\<close>

fun insert_index :: "nat \<Rightarrow> string \<times> jsval \<Rightarrow> (string \<times> jsval) list \<Rightarrow> (string \<times> jsval) list" where
  "insert_index i kv [] = [kv]"
| "insert_index i kv (x # xs) =
     (if is_index (fst x) \<and> read_nat (fst x) < i then x # insert_index i kv xs
      else kv # x # xs)"

definition define_prop :: "string \<Rightarrow> jsval \<Rightarrow> (string \<times> jsval) list \<Rightarrow> (string \<times> jsval) list" where
  "define_prop k v al =
     (if k \<in> fst ` set al then AList.update k v al
      else if is_index k then insert_index (read_nat k) (k, v) al
      else al @ [(k, v)])"

text \<open>
  \<open>spread target v\<close> is the effect of \<^verbatim>\<open>...v\<close> inside an object literal whose properties
  so far are \<open>target\<close>: each own property of \<open>v\<close> is defined in turn.
\<close>

definition spread :: "(string \<times> jsval) list \<Rightarrow> jsval \<Rightarrow> (string \<times> jsval) list" where
  "spread target v = foldl (\<lambda>acc kv. define_prop (fst kv) (snd kv) acc) target (own_props v)"

subsection \<open>JSON text\<close>

text \<open>
  \<^verbatim>\<open>JSON.stringify(v, null, 2)\<close>: \<open>None\<close> stands for the result \<^verbatim>\<open>undefined\<close>. A property
  whose value is \<^verbatim>\<open>undefined\<close> is left out of an object, an \<^verbatim>\<open>undefined\<close> array element
  is written \<^verbatim>\<open>null\<close>, and each nesting level is indented by two more spaces. In a
  quoted string the double quote, the backslash and the control characters are escaped.
\<close>

definition hex_char :: "nat \<Rightarrow> char" where
  "hex_char d = ''0123456789abcdef'' ! d"

definition json_quote_char :: "char \<Rightarrow> string" where
  "json_quote_char c =
     (if c = CHR 0x22 then [CHR 0x5C, CHR 0x22]
      else if c = CHR 0x5C then [CHR 0x5C, CHR 0x5C]
      else if c = CHR 0x08 then [CHR 0x5C, CHR ''b'']
      else if c = CHR 0x09 then [CHR 0x5C, CHR ''t'']
      else if c = CHR 0x0A then [CHR 0x5C, CHR ''n'']
      else if c = CHR 0x0C then [CHR 0x5C, CHR ''f'']
      else if c = CHR 0x0D then [CHR 0x5C, CHR ''r'']
      else if (of_char c :: nat) < 32 then
        [CHR 0x5C, CHR ''u'', CHR ''0'', CHR ''0'',
         hex_char (of_char c div 16), hex_char (of_char c mod 16)]
      else [c])"

definition json_quote :: "string \<Rightarrow> string" where
  "json_quote s = CHR 0x22 # concat (map json_quote_char s) @ [CHR 0x22]"

fun JSON_stringify_at :: "string \<Rightarrow> jsval \<Rightarrow> string option" where
  "JSON_stringify_at ind JUndefined = None"
| "JSON_stringify_at ind JNull = Some ''null''"
| "JSON_stringify_at ind (JBool b) = Some (if b then ''true'' else ''false'')"
| "JSON_stringify_at ind (JNum n) = Some (show_number n)"
| "JSON_stringify_at ind (JStr s) = Some (json_quote s)"
| "JSON_stringify_at ind (JArr xs) =
     (let items = map (\<lambda>x. case JSON_stringify_at (ind @ ''  '') x of
                              None \<Rightarrow> ''null'' | Some t \<Rightarrow> t) xs
      in Some (if items = [] then ''[]''
               else ''['' @ [CHR 0x0A] @ (ind @ ''  '')
                    @ join ('','' @ [CHR 0x0A] @ (ind @ ''  '')) items
                    @ [CHR 0x0A] @ ind @ '']''))"
| "JSON_stringify_at ind (JObj kvs) =
     (let members = concat (map (\<lambda>kv. case JSON_stringify_at (ind @ ''  '') (snd kv) of
                                        None \<Rightarrow> []
                                      | Some t \<Rightarrow> [json_quote (fst kv) @ '': '' @ t]) kvs)
      in Some (if members = [] then ''{}''
               else ''{'' @ [CHR 0x0A] @ (ind @ ''  '')
                    @ join ('','' @ [CHR 0x0A] @ (ind @ ''  '')) members
                    @ [CHR 0x0A] @ ind @ ''}''))"

definition JSON_stringify :: "jsval \<Rightarrow> string option" where
  "JSON_stringify v = JSON_stringify_at [] v"

section \<open>The settings file\<close>

text \<open>
  The file system as the main process uses it: a path holds nothing, a node that
  \<^verbatim>\<open>fs.readFileSync\<close> cannot read (a directory, a file without read permission), or a
  file with its text.
\<close>

datatype fnode = Unreadable | Text string

definition existsSync :: "(string \<rightharpoonup> fnode) \<Rightarrow> string \<Rightarrow> bool" where
  "existsSync d p = (d p \<noteq> None)"

text \<open>\<open>None\<close>: the call throws.\<close>

definition readFileSync :: "(string \<rightharpoonup> fnode) \<Rightarrow> string \<Rightarrow> string option" where
  "readFileSync d p = (case d p of Some (Text t) \<Rightarrow> Some t | _ \<Rightarrow> None)"

text \<open>
  \<^verbatim>\<open>fs.writeFileSync(path, data)\<close> opens the path itself for writing, which truncates the
  file, and then writes the data. How a call ends is decided by the environment: it
  completes; it fails before the file is opened (nothing changes); or it stops after
  \<open>k\<close> characters have been written (an I/O error in mid-write, or the process being
  interrupted), leaving the truncated file with that prefix. The boolean result says
  whether the call returned normally.
\<close>

datatype write_fate = Completes | FailsAtOpen | StopsAfter nat

fun writeFileSync ::
  "write_fate \<Rightarrow> (string \<rightharpoonup> fnode) \<Rightarrow> string \<Rightarrow> string \<Rightarrow> bool \<times> (string \<rightharpoonup> fnode)" where
  "writeFileSync Completes d p t = (True, d(p \<mapsto> Text t))"
| "writeFileSync FailsAtOpen d p t = (False, d)"
| "writeFileSync (StopsAfter k) d p t = (False, d(p \<mapsto> Text (take k t)))"

section \<open>The main process\<close>

text \<open>
  The state of the main process: the module variable \<^verbatim>\<open>settings\<close>, the file system, and
  the lines written with \<^verbatim>\<open>console.error\<close> (each by its label; the error printed after
  the label is left out).
\<close>

record proc =
  settings :: jsval
  disk :: "string \<rightharpoonup> fnode"
  console :: "string list"

definition initial_settings :: jsval where
  "initial_settings = JObj [(''piAddress'', JStr ''192.168.1.100''), (''piPort'', JNum 8080)]"

text \<open>
  \<^verbatim>\<open>loadSettings\<close>, run by \<^verbatim>\<open>createWindow\<close> at startup. \<^verbatim>\<open>JSON.parse\<close> is a parameter:
  \<open>None\<close> is a SyntaxError. The path \<^verbatim>\<open>settingsPath\<close> is computed once from the
  application's user-data directory and is a parameter as well.
\<close>

definition loadSettings :: "(string \<Rightarrow> jsval option) \<Rightarrow> string \<Rightarrow> proc \<Rightarrow> proc" where
  "loadSettings JSON_parse settingsPath w =
     (if existsSync (disk w) settingsPath then
        (case readFileSync (disk w) settingsPath of
           None \<Rightarrow> w\<lparr>console := console w @ [''Error loading settings:'']\<rparr>
         | Some t \<Rightarrow>
             (case JSON_parse t of
                None \<Rightarrow> w\<lparr>console := console w @ [''Error loading settings:'']\<rparr>
              | Some v \<Rightarrow> w\<lparr>settings := v\<rparr>))
      else w)"

text \<open>
  \<^verbatim>\<open>saveSettings\<close>: the text is written straight to \<^verbatim>\<open>settingsPath\<close>; whatever the
  \<^verbatim>\<open>try\<close> block throws is logged and dropped. (\<^verbatim>\<open>JSON.stringify\<close> returns
  \<^verbatim>\<open>undefined\<close> only when \<^verbatim>\<open>settings\<close> is \<^verbatim>\<open>undefined\<close>, and \<^verbatim>\<open>fs.writeFileSync\<close> rejects
  that with a TypeError; the handler below always stores an object first.)
\<close>

definition saveSettings :: "write_fate \<Rightarrow> string \<Rightarrow> proc \<Rightarrow> proc" where
  "saveSettings fate settingsPath w =
     (case JSON_stringify (settings w) of
        None \<Rightarrow> w\<lparr>console := console w @ [''Error saving settings:'']\<rparr>
      | Some t \<Rightarrow>
          (case writeFileSync fate (disk w) settingsPath t of
             (True, d) \<Rightarrow> w\<lparr>disk := d\<rparr>
           | (False, d) \<Rightarrow> w\<lparr>disk := d, console := console w @ [''Error saving settings:'']\<rparr>))"

subsection \<open>IPC handlers\<close>

definition get_settings :: "proc \<Rightarrow> jsval" where
  "get_settings w = settings w"

text \<open>\<^verbatim>\<open>save-settings\<close>: the reply and the new state.\<close>

definition save_settings :: "write_fate \<Rightarrow> string \<Rightarrow> jsval \<Rightarrow> proc \<Rightarrow> jsval \<times> proc" where
  "save_settings fate settingsPath newSettings w =
     (JObj [(''success'', JBool True)],
      saveSettings fate settingsPath
        (w\<lparr>settings := JObj (spread (spread [] (settings w)) newSettings)\<rparr>))"

text \<open>
  \<^verbatim>\<open>play-announcement\<close>. The arguments of the one call \<^verbatim>\<open>axios.post(url, data, config)\<close>
  are recorded as the request. The template literal of the URL reads \<^verbatim>\<open>settings.piAddress\<close>
  and converts it to a string, then does the same with \<^verbatim>\<open>settings.piPort\<close>; each of the
  four steps can throw, and then no request is made.
\<close>

record axios_call =
  call_method :: string
  call_url :: string
  call_data :: jsval
  call_config :: jsval

definition play_announcement_call :: "jsval \<Rightarrow> jsval \<Rightarrow> js_error + axios_call" where
  "play_announcement_call s audioFile =
     (case get_prop s ''piAddress'' of
        Inl e \<Rightarrow> Inl e
      | Inr a \<Rightarrow>
          (case to_string a of
             Inl e \<Rightarrow> Inl e
           | Inr address \<Rightarrow>
               (case get_prop s ''piPort'' of
                  Inl e \<Rightarrow> Inl e
                | Inr p \<Rightarrow>
                    (case to_string p of
                       Inl e \<Rightarrow> Inl e
                     | Inr port \<Rightarrow>
                         Inr \<lparr>call_method = ''POST'',
                              call_url = ''http://'' @ address @ '':'' @ port @ ''/play'',
                              call_data = JObj [(''audio'', audioFile)],
                              call_config = JObj [(''timeout'', JNum 5000)]\<rparr>))))"

text \<open>
  How the awaited promise of \<^verbatim>\<open>axios.post\<close> settles: fulfilled with a response (which the
  handler never reads), or rejected with an error. When and whether it settles is the
  HTTP client's matter and is not represented.
\<close>

datatype axios_outcome = Fulfilled | Throws js_error

definition delivered :: jsval where
  "delivered = JObj [(''success'', JBool True), (''message'', JStr ''Announcement sent successfully!'')]"

definition failed :: "string \<Rightarrow> jsval" where
  "failed msg =
     JObj [(''success'', JBool False), (''message'', JStr (''Failed to send announcement: '' @ msg))]"

definition play_announcement :: "axios_outcome \<Rightarrow> jsval \<Rightarrow> proc \<Rightarrow> jsval" where
  "play_announcement outcome audioFile w =
     (case play_announcement_call (settings w) audioFile of
        Inl e \<Rightarrow> failed (message e)
      | Inr c \<Rightarrow> (case outcome of Fulfilled \<Rightarrow> delivered | Throws e \<Rightarrow> failed (message e)))"

subsection \<open>Where a request goes\<close>










subsection \<open>The errors of the HTTP client\<close>

text \<open>
  The errors with which \<^verbatim>\<open>axios.post\<close> rejects when the request was made, and the message
  of each: a response with a status outside 200 to 299; no response within the
  configured 5000 milliseconds; the connection refused by the given address and port;
  the host name not resolved.
\<close>

datatype axios_failure =
    BadStatus nat
  | TimedOut
  | ConnectionRefused string
  | HostNotFound string

fun axios_error :: "axios_failure \<Rightarrow> js_error" where
  "axios_error (BadStatus st) =
     \<lparr>message = ''Request failed with status code '' @ show_nat st, response = Some st\<rparr>"
| "axios_error TimedOut = \<lparr>message = ''timeout of 5000ms exceeded'', response = None\<rparr>"
| "axios_error (ConnectionRefused target) =
     \<lparr>message = ''connect ECONNREFUSED '' @ target, response = None\<rparr>"
| "axios_error (HostNotFound host) =
     \<lparr>message = ''getaddrinfo ENOTFOUND '' @ host, response = None\<rparr>"

section \<open>The settings dialog of the renderer\<close>

text \<open>
  The object that the click handler of the Save button passes to \<^verbatim>\<open>save-settings\<close>: the
  three input fields as the strings typed into them, with no check of any of them.
\<close>

definition save_btn_newSettings :: "string \<Rightarrow> string \<Rightarrow> string \<Rightarrow> jsval" where
  "save_btn_newSettings address port token =
     JObj [(''piAddress'', JStr address), (''piPort'', JStr port), (''apiToken'', JStr token)]"

section \<open>Auxiliary facts\<close>

subsection \<open>Evaluating the decimal conversion\<close>

lemma show_nat_small: "n < 10 \<Longrightarrow> show_nat n = [digit_char n]"
  by (subst show_nat.simps) simp

lemma show_nat_big: "10 \<le> n \<Longrightarrow> show_nat n = show_nat (n div 10) @ [digit_char (n mod 10)]"
  by (subst show_nat.simps) simp

lemmas show_eval =
  show_nat_small show_nat_big show_number_def show_magnitude_def digit_char_def

lemmas json_eval = JSON_stringify_def json_quote_def json_quote_char_def show_eval

lemmas spread_eval = spread_def define_prop_def is_index_def is_digit_def read_nat_def

subsection \<open>Reading a decimal text back\<close>

lemma digit_value: "d < 10 \<Longrightarrow> of_char (digit_char d) - 48 = d"
proof -
  assume "d < 10"
  then have "d = 0 \<or> d = 1 \<or> d = 2 \<or> d = 3 \<or> d = 4
             \<or> d = 5 \<or> d = 6 \<or> d = 7 \<or> d = 8 \<or> d = 9"
    by arith
  then show ?thesis
    by (elim disjE) (simp_all add: digit_char_def)
qed

lemma read_nat_snoc: "read_nat (s @ [c]) = 10 * read_nat s + (of_char c - 48)"
  by (simp add: read_nat_def)

lemma read_nat_show_nat: "read_nat (show_nat n) = n"
proof (induction n rule: show_nat.induct)
  case (1 n)
  show ?case
  proof (cases "n < 10")
    case True
    then show ?thesis
      by (simp add: show_nat_small read_nat_def digit_value)
  next
    case False
    then have "read_nat (show_nat n)
               = 10 * read_nat (show_nat (n div 10)) + (of_char (digit_char (n mod 10)) - 48)"
      by (simp add: show_nat_big read_nat_snoc)
    also have "\<dots> = 10 * (n div 10) + n mod 10"
      using False "1.IH" by (simp add: digit_value)
    finally show ?thesis by simp
  qed
qed

lemma show_nat_inject: "show_nat a = show_nat b \<longleftrightarrow> a = b"
proof
  assume "show_nat a = show_nat b"
  then have "read_nat (show_nat a) = read_nat (show_nat b)" by (rule arg_cong)
  then show "a = b" by (simp only: read_nat_show_nat)
next
  assume "a = b"
  then show "show_nat a = show_nat b" by (rule arg_cong)
qed

subsection \<open>Object spread as a map override\<close>

lemma map_of_insert_index:
  "k \<notin> fst ` set al \<Longrightarrow> map_of (insert_index i (k, v) al) = (map_of al)(k \<mapsto> v)"
  by (induction al) (auto simp: fun_upd_twist)

lemma map_of_define_prop: "map_of (define_prop k v al) = (map_of al)(k \<mapsto> v)"
proof (cases "k \<in> fst ` set al")
  case True
  then show ?thesis by (simp add: define_prop_def update_conv')
next
  case False
  then have none: "map_of al k = None"
    by (simp add: map_of_eq_None_iff)
  have "map_of (al @ [(k, v)]) = (map_of al)(k \<mapsto> v)"
    using none by (auto simp: fun_eq_iff map_add_def split: option.splits)
  with False show ?thesis
    by (simp add: define_prop_def map_of_insert_index)
qed

lemma map_of_fold_define_other:
  "k \<notin> fst ` set xs \<Longrightarrow>
   map_of (foldl (\<lambda>acc kv. define_prop (fst kv) (snd kv) acc) acc xs) k = map_of acc k"
  by (induction xs arbitrary: acc) (auto simp: map_of_define_prop)

lemma map_of_fold_define:
  "map_of (foldl (\<lambda>acc kv. define_prop (fst kv) (snd kv) acc) acc xs)
     = map_of acc ++ map_of (rev xs)"
proof (induction xs arbitrary: acc)
  case Nil
  show ?case by simp
next
  case (Cons x xs)
  have "map_of (foldl (\<lambda>acc kv. define_prop (fst kv) (snd kv) acc) acc (x # xs))
        = map_of (define_prop (fst x) (snd x) acc) ++ map_of (rev xs)"
    using Cons.IH by simp
  also have "\<dots> = map_of acc ++ map_of (rev (x # xs))"
    by (cases x) (simp add: map_of_define_prop fun_eq_iff map_add_def split: option.splits)
  finally show ?case .
qed

lemma map_of_rev_distinct:
  "distinct (map fst xs) \<Longrightarrow> map_of (rev xs) = map_of xs"
proof (induction xs)
  case Nil
  show ?case by simp
next
  case (Cons x xs)
  obtain k v where x: "x = (k, v)" by (cases x)
  from Cons.prems have fresh: "map_of xs k = None"
    by (simp add: x map_of_eq_None_iff)
  from Cons have IH: "map_of (rev xs) = map_of xs" by simp
  show ?case
    using fresh by (auto simp: x IH map_add_def fun_eq_iff split: option.splits)
qed

lemma map_of_spread_other:
  "k \<notin> fst ` set (own_props v) \<Longrightarrow> map_of (spread target v) k = map_of target k"
  by (simp add: spread_def map_of_fold_define_other)

lemma map_of_spread_empty:
  "distinct (map fst (own_props v)) \<Longrightarrow> map_of (spread [] v) = map_of (own_props v)"
  by (simp add: spread_def map_of_fold_define map_of_rev_distinct)

text \<open>With keys that do not repeat, \<^verbatim>\<open>{...a, ...b}\<close> is the override of \<open>a\<close> by \<open>b\<close>.\<close>

lemma map_of_spread_spread:
  "distinct (map fst (own_props a)) \<Longrightarrow> distinct (map fst (own_props b)) \<Longrightarrow>
   map_of (spread (spread [] a) b) = map_of (own_props a) ++ map_of (own_props b)"
  by (simp add: spread_def map_of_fold_define map_of_rev_distinct)

subsection \<open>Saving\<close>

lemma JSON_stringify_object: "\<exists>t. JSON_stringify (JObj kvs) = Some t"
  by (simp add: JSON_stringify_def Let_def)

lemma settings_saveSettings: "settings (saveSettings fate sp w) = settings w"
  by (cases fate) (simp_all add: saveSettings_def split: option.splits)

subsection \<open>Reading the URL of a request\<close>











subsection \<open>The errors of the HTTP client\<close>

text \<open>
  The messages of the HTTP client's errors tell the errors apart.
\<close>

lemma axios_error_message_inject:
  "message (axios_error f1) = message (axios_error f2) \<longleftrightarrow> f1 = f2"
  by (cases f1; cases f2) (simp_all add: show_nat_inject)

section \<open>The play request\<close>




text \<open>
  Whatever the settings and the identifier, the third argument of \<^verbatim>\<open>axios.post\<close> is the
  object \<^verbatim>\<open>{timeout: 5000}\<close>: a bound of five seconds, and no \<^verbatim>\<open>headers\<close> entry.
\<close>

lemma play_request_config:
  assumes "play_announcement_call s audioFile = Inr c"
  shows "call_config c = JObj [(''timeout'', JNum 5000)]
       \<and> get_prop (call_config c) ''headers'' = Inr JUndefined"
  using assms by (auto simp: play_announcement_call_def split: sum.splits)

text \<open>
  Claim C1. The claim asks for an \<^verbatim>\<open>Authorization: Bearer\<close> header that carries the
  stored credential. Evaluated on the code: the Save button of the settings dialog
  stores the token \<^verbatim>\<open>s3cr3t\<close> in the profile as \<^verbatim>\<open>apiToken\<close>, and the request that
  \<^verbatim>\<open>play-announcement\<close> then builds for \<^verbatim>\<open>bell.mp3\<close> has the configuration
  \<^verbatim>\<open>{timeout: 5000}\<close> and nothing else: no header is set and the token is not read.
\<close>

theorem play_request_carries_no_authorization:
  "get_prop (settings (snd (save_settings Completes ''settings.json''
               (save_btn_newSettings ''192.168.1.100'' ''8080'' ''s3cr3t'')
               \<lparr>settings = initial_settings, disk = Map.empty, console = []\<rparr>))) ''apiToken''
     = Inr (JStr ''s3cr3t'')
   \<and> play_announcement_call
         (settings (snd (save_settings Completes ''settings.json''
               (save_btn_newSettings ''192.168.1.100'' ''8080'' ''s3cr3t'')
               \<lparr>settings = initial_settings, disk = Map.empty, console = []\<rparr>)))
         (JStr ''bell.mp3'')
     = Inr \<lparr>call_method = ''POST'', call_url = ''http://192.168.1.100:8080/play'',
            call_data = JObj [(''audio'', JStr ''bell.mp3'')],
            call_config = JObj [(''timeout'', JNum 5000)]\<rparr>
   \<and> get_prop (JObj [(''timeout'', JNum 5000)]) ''headers'' = Inr JUndefined"
  by (simp add: save_settings_def settings_saveSettings save_btn_newSettings_def
      initial_settings_def spread_eval play_announcement_call_def)

section \<open>Saving the profile\<close>

text \<open>
  Claim C8. \<^verbatim>\<open>save-settings\<close> answers \<^verbatim>\<open>{success: true}\<close> for every argument and however
  the write ends. When the write fails before the file is opened the file system is
  unchanged and one line is logged; when it fails in mid-write one line is logged as
  well; the reply is \<^verbatim>\<open>{success: true}\<close> all the same.
\<close>

theorem save_settings_always_reports_success:
  "fst (save_settings fate sp newSettings w) = JObj [(''success'', JBool True)]
   \<and> disk (snd (save_settings FailsAtOpen sp newSettings w)) = disk w
   \<and> console (snd (save_settings FailsAtOpen sp newSettings w))
       = console w @ [''Error saving settings:'']
   \<and> console (snd (save_settings (StopsAfter k) sp newSettings w))
       = console w @ [''Error saving settings:'']"
  by (simp add: save_settings_def saveSettings_def JSON_stringify_def Let_def)

text \<open>
  Claim C10. \<^verbatim>\<open>save-settings\<close> merges its argument over the current profile: the fields
  of the new profile are those of the old one overridden by those of the argument.
  So a field that the argument does not have keeps the value it had, and a field
  that the argument has takes the argument's value, whether the profile had it
  before or not. (Profile and argument are objects, so their keys do not repeat.)
\<close>

theorem save_settings_merges:
  assumes "distinct (map fst (own_props (settings w)))"
    and "distinct (map fst (own_props newSettings))"
  shows "map_of (own_props (settings (snd (save_settings fate sp newSettings w))))
           = map_of (own_props (settings w)) ++ map_of (own_props newSettings)
       \<and> (k \<notin> fst ` set (own_props newSettings) \<longrightarrow>
            map_of (own_props (settings (snd (save_settings fate sp newSettings w)))) k
              = map_of (own_props (settings w)) k)
       \<and> (map_of (own_props newSettings) k = Some v \<longrightarrow>
            map_of (own_props (settings (snd (save_settings fate sp newSettings w)))) k
              = Some v)"
proof -
  have merged: "map_of (own_props (settings (snd (save_settings fate sp newSettings w))))
           = map_of (own_props (settings w)) ++ map_of (own_props newSettings)"
    using assms by (simp add: save_settings_def settings_saveSettings map_of_spread_spread)
  have "map_of (own_props newSettings) k = None" if "k \<notin> fst ` set (own_props newSettings)"
    using that by (simp add: map_of_eq_None_iff)
  then show ?thesis
    by (simp add: merged map_add_def)
qed

theorem save_settings_merges_witness:
  "settings (snd (save_settings Completes ''settings.json''
       (JObj [(''piAddress'', JStr ''10.0.0.7''), (''apiToken'', JStr ''s3cr3t'')])
       \<lparr>settings = initial_settings, disk = Map.empty, console = []\<rparr>))
     = JObj [(''piAddress'', JStr ''10.0.0.7''), (''piPort'', JNum 8080),
             (''apiToken'', JStr ''s3cr3t'')]
   \<and> map_of (own_props (settings (snd (save_settings Completes ''settings.json''
       (JObj [(''piAddress'', JStr ''10.0.0.7''), (''apiToken'', JStr ''s3cr3t'')])
       \<lparr>settings = initial_settings, disk = Map.empty, console = []\<rparr>)))) ''piPort''
     = Some (JNum 8080)
   \<and> map_of (own_props (settings (snd (save_settings Completes ''settings.json''
       (JObj [(''piAddress'', JStr ''10.0.0.7''), (''apiToken'', JStr ''s3cr3t'')])
       \<lparr>settings = initial_settings, disk = Map.empty, console = []\<rparr>)))) ''piAddress''
     = Some (JStr ''10.0.0.7'')
   \<and> map_of (own_props (settings (snd (save_settings Completes ''settings.json''
       (JObj [(''piAddress'', JStr ''10.0.0.7''), (''apiToken'', JStr ''s3cr3t'')])
       \<lparr>settings = initial_settings, disk = Map.empty, console = []\<rparr>)))) ''apiToken''
     = Some (JStr ''s3cr3t'')"
proof -
  let ?w = "\<lparr>settings = initial_settings, disk = Map.empty, console = []\<rparr>"
  let ?n = "JObj [(''piAddress'', JStr ''10.0.0.7''), (''apiToken'', JStr ''s3cr3t'')]"
  have d: "distinct (map fst (own_props (settings ?w)))"
    by (simp add: initial_settings_def)
  have n: "distinct (map fst (own_props ?n))" by simp
  have old: "map_of (own_props (settings ?w)) ''piPort'' = Some (JNum 8080)"
    by (simp add: initial_settings_def)
  have whole: "settings (snd (save_settings Completes ''settings.json'' ?n ?w))
     = JObj [(''piAddress'', JStr ''10.0.0.7''), (''piPort'', JNum 8080),
             (''apiToken'', JStr ''s3cr3t'')]"
    by (simp add: save_settings_def settings_saveSettings initial_settings_def spread_eval)
  from save_settings_merges [OF d n, of Completes "''settings.json''" "''piPort''"]
       save_settings_merges [OF d n, of Completes "''settings.json''" "''piAddress''"
                                        "JStr ''10.0.0.7''"]
       save_settings_merges [OF d n, of Completes "''settings.json''" "''apiToken''"
                                        "JStr ''s3cr3t''"]
       old whole
  show ?thesis by simp
qed

text \<open>
  Claim C3. The claim says that saving checks the port and does not persist a profile
  whose port is not an integer between 1 and 65535. On the code it fails: saving the
  port 70000 stores it in the profile and writes it to the settings file.
\<close>

theorem save_settings_persists_port_70000:
  \<open>get_prop (settings (snd (save_settings Completes ''settings.json''
       (JObj [(''piPort'', JNum 70000)])
       \<lparr>settings = initial_settings, disk = Map.empty, console = []\<rparr>))) ''piPort''
     = Inr (JNum 70000)
   \<and> disk (snd (save_settings Completes ''settings.json''
       (JObj [(''piPort'', JNum 70000)])
       \<lparr>settings = initial_settings, disk = Map.empty, console = []\<rparr>)) ''settings.json''
     = Some (Text ''{\<newline>  "piAddress": "192.168.1.100",\<newline>  "piPort": 70000\<newline>}'')\<close>
  by (simp add: save_settings_def saveSettings_def initial_settings_def spread_eval json_eval)

text \<open>
  Claim C3, as the code has it. Saving checks nothing: for every argument the profile
  becomes the merge of the old profile and the argument, and when the write completes
  the settings file holds the JSON text of exactly that merge; in particular a port
  \<open>v\<close> of any kind is stored as it is passed.
\<close>

theorem save_settings_stores_unvalidated:
  "settings (snd (save_settings fate sp newSettings w))
     = JObj (spread (spread [] (settings w)) newSettings)
   \<and> (\<exists>t. JSON_stringify (JObj (spread (spread [] (settings w)) newSettings)) = Some t
          \<and> disk (snd (save_settings Completes sp newSettings w)) sp = Some (Text t))
   \<and> get_prop (settings (snd (save_settings fate sp (JObj [(''piPort'', v)]) w))) ''piPort''
       = Inr v"
proof -
  have a: "settings (snd (save_settings fate sp newSettings w))
     = JObj (spread (spread [] (settings w)) newSettings)"
    by (simp add: save_settings_def settings_saveSettings)
  obtain t where t: "JSON_stringify (JObj (spread (spread [] (settings w)) newSettings)) = Some t"
    using JSON_stringify_object by blast
  have b: "disk (snd (save_settings Completes sp newSettings w)) sp = Some (Text t)"
    by (simp add: save_settings_def saveSettings_def t)
  have "map_of (spread (spread [] (settings w)) (JObj [(''piPort'', v)])) ''piPort'' = Some v"
    by (simp add: spread_def map_of_define_prop)
  then have c:
    "get_prop (settings (snd (save_settings fate sp (JObj [(''piPort'', v)]) w))) ''piPort''
       = Inr v"
    by (simp add: save_settings_def settings_saveSettings)
  from a t b c show ?thesis by blast
qed

text \<open>
  Claim C4. The claim says that the profile is written to a temporary file which then
  replaces the settings file, so that an interrupted write leaves the old profile or
  the complete new one. On the code it fails: the settings file holds a saved profile,
  the address is changed, and the write stops after 17 characters; the file then holds
  the first 17 characters of the new text, which is neither the old text nor the new.
\<close>

theorem saveSettings_interrupted_leaves_partial_file:
  \<open>disk (saveSettings (StopsAfter 17) ''settings.json''
       \<lparr>settings = JObj [(''piAddress'', JStr ''10.0.0.7''), (''piPort'', JNum 8080)],
        disk = [''settings.json'' \<mapsto>
                 Text ''{\<newline>  "piAddress": "192.168.1.100",\<newline>  "piPort": 8080\<newline>}''],
        console = []\<rparr>) ''settings.json''
     = Some (Text ''{\<newline>  "piAddress": '')
   \<and> JSON_stringify (JObj [(''piAddress'', JStr ''10.0.0.7''), (''piPort'', JNum 8080)])
     = Some ''{\<newline>  "piAddress": "10.0.0.7",\<newline>  "piPort": 8080\<newline>}''
   \<and> ''{\<newline>  "piAddress": ''
     \<noteq> ''{\<newline>  "piAddress": "192.168.1.100",\<newline>  "piPort": 8080\<newline>}''
   \<and> ''{\<newline>  "piAddress": ''
     \<noteq> ''{\<newline>  "piAddress": "10.0.0.7",\<newline>  "piPort": 8080\<newline>}''\<close>
  by (simp add: saveSettings_def json_eval)

text \<open>
  Claim C4, as the code has it. \<^verbatim>\<open>saveSettings\<close> overwrites the settings file in place
  with one call of \<^verbatim>\<open>fs.writeFileSync\<close>: no other path is created or changed, so there
  is no temporary file and no replace step. A write that completes leaves the complete
  JSON text of the profile, a write that stops after \<open>k\<close> characters leaves the first
  \<open>k\<close> characters of it, and a write that fails before opening the file changes
  nothing.
\<close>

theorem saveSettings_overwrites_in_place:
  "(p \<noteq> sp \<longrightarrow> disk (saveSettings fate sp w) p = disk w p)
   \<and> (JSON_stringify (settings w) = Some t \<longrightarrow>
        disk (saveSettings Completes sp w) sp = Some (Text t)
        \<and> disk (saveSettings (StopsAfter k) sp w) sp = Some (Text (take k t))
        \<and> disk (saveSettings FailsAtOpen sp w) = disk w)"
  by (cases fate) (auto simp: saveSettings_def split: option.splits)

theorem saveSettings_overwrites_in_place_witness:
  \<open>disk (saveSettings Completes ''settings.json''
       \<lparr>settings = initial_settings, disk = [''notes.txt'' \<mapsto> Text ''keep''], console = []\<rparr>)
     ''notes.txt'' = Some (Text ''keep'')
   \<and> disk (saveSettings Completes ''settings.json''
       \<lparr>settings = initial_settings, disk = [''notes.txt'' \<mapsto> Text ''keep''], console = []\<rparr>)
     ''settings.json''
     = Some (Text ''{\<newline>  "piAddress": "192.168.1.100",\<newline>  "piPort": 8080\<newline>}'')
   \<and> disk (saveSettings (StopsAfter 1) ''settings.json''
       \<lparr>settings = initial_settings, disk = [''notes.txt'' \<mapsto> Text ''keep''], console = []\<rparr>)
     ''settings.json'' = Some (Text ''{'')\<close>
proof -
  let ?w = "\<lparr>settings = initial_settings, disk = [''notes.txt'' \<mapsto> Text ''keep''],
             console = []\<rparr>"
  have p: "''notes.txt'' \<noteq> ''settings.json''" by simp
  have t: \<open>JSON_stringify (settings ?w)
             = Some ''{\<newline>  "piAddress": "192.168.1.100",\<newline>  "piPort": 8080\<newline>}''\<close>
    by (simp add: initial_settings_def json_eval)
  from saveSettings_overwrites_in_place
         [of "''notes.txt''" "''settings.json''" Completes ?w _ 1] p t
  show ?thesis by simp
qed

section \<open>Loading the profile\<close>

text \<open>
  Claim C5. The claim says that with no saved profile \<^verbatim>\<open>get-settings\<close> returns an empty
  address, port 8080 and an empty credential. On the code it fails: after startup
  without a settings file the address is not empty and there is no credential field.
\<close>

theorem default_profile_is_not_empty:
  "\<not> (get_prop (get_settings (loadSettings (\<lambda>t. None) ''settings.json''
            \<lparr>settings = initial_settings, disk = Map.empty, console = []\<rparr>)) ''piAddress''
        = Inr (JStr [])
      \<and> get_prop (get_settings (loadSettings (\<lambda>t. None) ''settings.json''
            \<lparr>settings = initial_settings, disk = Map.empty, console = []\<rparr>)) ''piPort''
        = Inr (JNum 8080)
      \<and> get_prop (get_settings (loadSettings (\<lambda>t. None) ''settings.json''
            \<lparr>settings = initial_settings, disk = Map.empty, console = []\<rparr>)) ''apiToken''
        = Inr (JStr []))"
  by (simp add: get_settings_def loadSettings_def existsSync_def initial_settings_def)

text \<open>
  Claim C5, as the code has it. When there is no settings file, startup leaves the
  initial profile in place and \<^verbatim>\<open>get-settings\<close> returns it: address
  \<^verbatim>\<open>192.168.1.100\<close>, port 8080, and no credential field (reading \<^verbatim>\<open>apiToken\<close> gives
  \<^verbatim>\<open>undefined\<close>).
\<close>

theorem get_settings_default_profile:
  assumes "disk w settingsPath = None" and "settings w = initial_settings"
  shows "get_settings (loadSettings JSON_parse settingsPath w)
           = JObj [(''piAddress'', JStr ''192.168.1.100''), (''piPort'', JNum 8080)]
         \<and> get_prop (get_settings (loadSettings JSON_parse settingsPath w)) ''apiToken''
           = Inr JUndefined"
  using assms
  by (simp add: get_settings_def loadSettings_def existsSync_def initial_settings_def)

theorem get_settings_default_profile_witness:
  "get_settings (loadSettings (\<lambda>t. None) ''settings.json''
      \<lparr>settings = initial_settings, disk = Map.empty, console = []\<rparr>)
     = JObj [(''piAddress'', JStr ''192.168.1.100''), (''piPort'', JNum 8080)]
   \<and> get_prop (get_settings (loadSettings (\<lambda>t. None) ''settings.json''
      \<lparr>settings = initial_settings, disk = Map.empty, console = []\<rparr>)) ''apiToken''
     = Inr JUndefined"
proof -
  let ?w = "\<lparr>settings = initial_settings, disk = Map.empty, console = []\<rparr>"
  have a: "disk ?w ''settings.json'' = None" by simp
  have b: "settings ?w = initial_settings" by simp
  show ?thesis by (rule get_settings_default_profile [OF a b])
qed

text \<open>
  Claim C9. If the settings file exists but cannot be read, or its text is not JSON,
  \<^verbatim>\<open>loadSettings\<close> catches the error: it returns normally with the profile it had (at
  startup the initial one), the file system untouched and one line logged, so
  \<^verbatim>\<open>get-settings\<close> answers as before.
\<close>

theorem loadSettings_keeps_profile_on_bad_file:
  assumes "disk w settingsPath = Some Unreadable
           \<or> (\<exists>t. disk w settingsPath = Some (Text t) \<and> JSON_parse t = None)"
  shows "settings (loadSettings JSON_parse settingsPath w) = settings w
         \<and> get_settings (loadSettings JSON_parse settingsPath w) = get_settings w
         \<and> disk (loadSettings JSON_parse settingsPath w) = disk w
         \<and> console (loadSettings JSON_parse settingsPath w)
             = console w @ [''Error loading settings:'']"
  using assms
  by (auto simp: loadSettings_def existsSync_def readFileSync_def get_settings_def)

theorem loadSettings_keeps_profile_on_bad_file_witness:
  "get_settings (loadSettings (\<lambda>t. if t = ''{}'' then Some (JObj []) else None) ''settings.json''
      \<lparr>settings = initial_settings, disk = [''settings.json'' \<mapsto> Text ''{ piAddress:''],
       console = []\<rparr>)
     = initial_settings
   \<and> console (loadSettings (\<lambda>t. if t = ''{}'' then Some (JObj []) else None) ''settings.json''
      \<lparr>settings = initial_settings, disk = [''settings.json'' \<mapsto> Text ''{ piAddress:''],
       console = []\<rparr>)
     = [''Error loading settings:'']"
proof -
  let ?parse = "\<lambda>t. if t = ''{}'' then Some (JObj []) else None"
  let ?w = "\<lparr>settings = initial_settings, disk = [''settings.json'' \<mapsto> Text ''{ piAddress:''],
             console = []\<rparr>"
  have bad: "disk ?w ''settings.json'' = Some Unreadable
             \<or> (\<exists>t. disk ?w ''settings.json'' = Some (Text t) \<and> ?parse t = None)"
    by simp
  from loadSettings_keeps_profile_on_bad_file [OF bad]
  show ?thesis by (simp add: get_settings_def)
qed

section \<open>The outcome of a dispatch\<close>

text \<open>
  Claim C2. The claim says that every completed dispatch yields one of three
  outcomes: delivered, rejected by the server, or server unreachable. On the code it
  fails: when the settings file holds the JSON text \<^verbatim>\<open>null\<close>, startup stores \<^verbatim>\<open>null\<close> as
  the profile, reading \<^verbatim>\<open>settings.piAddress\<close> throws, no request is made, and whatever the
  network would have done the dispatch answers with a failure that carries the
  TypeError's message: no server declined and no connection failed.
\<close>

theorem play_announcement_without_request:
  "settings (loadSettings (\<lambda>t. if t = ''null'' then Some JNull else None) ''settings.json''
      \<lparr>settings = initial_settings, disk = [''settings.json'' \<mapsto> Text ''null''],
       console = []\<rparr>) = JNull
   \<and> play_announcement_call JNull (JStr ''bell.mp3'')
     = Inl (type_error (''Cannot read properties of null (reading ''
                         @ [CHR 0x27] @ ''piAddress'' @ [CHR 0x27] @ '')''))
   \<and> play_announcement Fulfilled (JStr ''bell.mp3'')
       (loadSettings (\<lambda>t. if t = ''null'' then Some JNull else None) ''settings.json''
          \<lparr>settings = initial_settings, disk = [''settings.json'' \<mapsto> Text ''null''],
           console = []\<rparr>)
     = failed (''Cannot read properties of null (reading ''
                @ [CHR 0x27] @ ''piAddress'' @ [CHR 0x27] @ '')'')
   \<and> play_announcement (Throws (axios_error TimedOut)) (JStr ''bell.mp3'')
       (loadSettings (\<lambda>t. if t = ''null'' then Some JNull else None) ''settings.json''
          \<lparr>settings = initial_settings, disk = [''settings.json'' \<mapsto> Text ''null''],
           console = []\<rparr>)
     = failed (''Cannot read properties of null (reading ''
                @ [CHR 0x27] @ ''piAddress'' @ [CHR 0x27] @ '')'')"
  by (simp add: loadSettings_def existsSync_def readFileSync_def play_announcement_def
      play_announcement_call_def type_error_def)

text \<open>
  Claim C2, as the code has it. A dispatch ends in exactly one of two results:
  \<^verbatim>\<open>{success: true}\<close> with a fixed message, or \<^verbatim>\<open>{success: false}\<close> with the message
  \<^verbatim>\<open>Failed to send announcement: \<close> followed by the message of the error that was
  thrown; two failures coincide exactly when those messages do. When the request is
  made, a fulfilled call gives the first result and a rejected call the second, and
  the errors of the HTTP client give pairwise different results: a response with
  status \<open>s\<close> is told from a response with any other status, from a timeout, from a
  refused connection and from an unresolved host. When building the request throws,
  no request is made and the result is a failure with that error's message, whatever
  the network would have done.
\<close>

theorem play_announcement_outcomes:
  "(play_announcement outcome audioFile w = delivered
      \<or> (\<exists>msg. play_announcement outcome audioFile w = failed msg))
   \<and> delivered \<noteq> failed msg1
   \<and> ((failed msg1 = failed msg2) = (msg1 = msg2))
   \<and> (play_announcement_call (settings w) audioFile = Inr c \<longrightarrow>
        play_announcement Fulfilled audioFile w = delivered
        \<and> play_announcement (Throws e) audioFile w = failed (message e)
        \<and> ((play_announcement (Throws (axios_error f1)) audioFile w
              = play_announcement (Throws (axios_error f2)) audioFile w) = (f1 = f2)))
   \<and> (play_announcement_call (settings w) audioFile = Inl e' \<longrightarrow>
        play_announcement outcome audioFile w = failed (message e'))"
proof -
  have shape: "play_announcement outcome audioFile w = delivered
      \<or> (\<exists>msg. play_announcement outcome audioFile w = failed msg)"
    by (auto simp: play_announcement_def split: sum.splits axios_outcome.splits)
  have apart: "delivered \<noteq> failed msg1"
    by (simp add: delivered_def failed_def)
  have inj: "(failed m = failed m') = (m = m')" for m m'
    by (simp add: failed_def)
  have sent: "play_announcement Fulfilled audioFile w = delivered
        \<and> play_announcement (Throws e) audioFile w = failed (message e)
        \<and> ((play_announcement (Throws (axios_error f1)) audioFile w
              = play_announcement (Throws (axios_error f2)) audioFile w) = (f1 = f2))"
    if "play_announcement_call (settings w) audioFile = Inr c"
    using that by (simp add: play_announcement_def inj axios_error_message_inject)
  have unsent: "play_announcement outcome audioFile w = failed (message e')"
    if "play_announcement_call (settings w) audioFile = Inl e'"
    using that by (simp add: play_announcement_def)
  from shape apart inj sent unsent show ?thesis by blast
qed

theorem play_announcement_outcomes_witness:
  "play_announcement Fulfilled (JStr ''bell.mp3'')
       \<lparr>settings = initial_settings, disk = Map.empty, console = []\<rparr> = delivered
   \<and> play_announcement (Throws (axios_error (BadStatus 409))) (JStr ''bell.mp3'')
       \<lparr>settings = initial_settings, disk = Map.empty, console = []\<rparr>
     = failed ''Request failed with status code 409''
   \<and> play_announcement (Throws (axios_error (BadStatus 409))) (JStr ''bell.mp3'')
       \<lparr>settings = initial_settings, disk = Map.empty, console = []\<rparr>
     \<noteq> play_announcement (Throws (axios_error TimedOut)) (JStr ''bell.mp3'')
       \<lparr>settings = initial_settings, disk = Map.empty, console = []\<rparr>
   \<and> play_announcement (Throws (axios_error TimedOut)) (JStr ''bell.mp3'')
       \<lparr>settings = JNull, disk = Map.empty, console = []\<rparr>
     = failed (''Cannot read properties of null (reading ''
                @ [CHR 0x27] @ ''piAddress'' @ [CHR 0x27] @ '')'')"
proof -
  let ?w = "\<lparr>settings = initial_settings, disk = Map.empty, console = []\<rparr>"
  let ?n = "\<lparr>settings = JNull, disk = Map.empty, console = []\<rparr>"
  have call: "play_announcement_call (settings ?w) (JStr ''bell.mp3'') =
     Inr \<lparr>call_method = ''POST'', call_url = ''http://192.168.1.100:8080/play'',
          call_data = JObj [(''audio'', JStr ''bell.mp3'')],
          call_config = JObj [(''timeout'', JNum 5000)]\<rparr>"
    by (simp add: play_announcement_call_def initial_settings_def show_eval)
  have none: "play_announcement_call (settings ?n) (JStr ''bell.mp3'')
     = Inl (type_error (''Cannot read properties of null (reading ''
                         @ [CHR 0x27] @ ''piAddress'' @ [CHR 0x27] @ '')''))"
    by (simp add: play_announcement_call_def)
  have msg: "message (axios_error (BadStatus 409)) = ''Request failed with status code 409''"
    by (simp add: show_eval)
  have sent:
    "play_announcement Fulfilled (JStr ''bell.mp3'') ?w = delivered
     \<and> play_announcement (Throws (axios_error (BadStatus 409))) (JStr ''bell.mp3'') ?w
         = failed (message (axios_error (BadStatus 409)))
     \<and> ((play_announcement (Throws (axios_error (BadStatus 409))) (JStr ''bell.mp3'') ?w
           = play_announcement (Throws (axios_error TimedOut)) (JStr ''bell.mp3'') ?w)
          = (BadStatus 409 = TimedOut))"
    using call
      play_announcement_outcomes
         [where outcome = Fulfilled and audioFile = "JStr ''bell.mp3''" and w = ?w
            and ?msg1.0 = "[]" and ?msg2.0 = "[]"
            and c = "\<lparr>call_method = ''POST'', call_url = ''http://192.168.1.100:8080/play'',
                      call_data = JObj [(''audio'', JStr ''bell.mp3'')],
                      call_config = JObj [(''timeout'', JNum 5000)]\<rparr>"
            and e = "axios_error (BadStatus 409)" and ?f1.0 = "BadStatus 409"
            and ?f2.0 = TimedOut and e' = "axios_error TimedOut"]
    by blast
  have unsent:
    "play_announcement (Throws (axios_error TimedOut)) (JStr ''bell.mp3'') ?n
       = failed (message (type_error (''Cannot read properties of null (reading ''
                         @ [CHR 0x27] @ ''piAddress'' @ [CHR 0x27] @ '')'')))"
    using none
      play_announcement_outcomes
         [where outcome = "Throws (axios_error TimedOut)" and audioFile = "JStr ''bell.mp3''"
            and w = ?n and ?msg1.0 = "[]" and ?msg2.0 = "[]"
            and c = "\<lparr>call_method = [], call_url = [], call_data = JNull,
                      call_config = JNull\<rparr>"
            and e = "axios_error TimedOut" and ?f1.0 = TimedOut and ?f2.0 = TimedOut
            and e' = "type_error (''Cannot read properties of null (reading ''
                         @ [CHR 0x27] @ ''piAddress'' @ [CHR 0x27] @ '')'')"]
    by blast
  from sent have a1: "play_announcement Fulfilled (JStr ''bell.mp3'') ?w = delivered"
    by (rule conjunct1)
  from sent have a2:
    "play_announcement (Throws (axios_error (BadStatus 409))) (JStr ''bell.mp3'') ?w
       = failed ''Request failed with status code 409''"
    by (simp only: msg)
  from sent have
    "(play_announcement (Throws (axios_error (BadStatus 409))) (JStr ''bell.mp3'') ?w
        = play_announcement (Throws (axios_error TimedOut)) (JStr ''bell.mp3'') ?w)
     = (BadStatus 409 = TimedOut)"
    by blast
  then have a3:
    "play_announcement (Throws (axios_error (BadStatus 409))) (JStr ''bell.mp3'') ?w
       \<noteq> play_announcement (Throws (axios_error TimedOut)) (JStr ''bell.mp3'') ?w"
    by (simp only: axios_failure.distinct simp_thms)
  have m: "message (type_error x) = x" for x
    by (simp add: type_error_def)
  from unsent have a4:
    "play_announcement (Throws (axios_error TimedOut)) (JStr ''bell.mp3'') ?n
       = failed (''Cannot read properties of null (reading ''
                  @ [CHR 0x27] @ ''piAddress'' @ [CHR 0x27] @ '')'')"
    by (simp only: m)
  from a1 a2 a3 a4 show ?thesis by (intro conjI)
qed

end
